theory Spec2Isabelle
  imports Main "HOL-Library.Sublist" "HOL-Library.Monad_Syntax"
begin

section \<open>JavaScript strings and the regular expressions of the worker\<close>

text \<open>
  A JavaScript string is a sequence of code units. It is modelled as a \<^typ>\<open>string\<close>,
  so the code units are the ones below 256. Every literal and every pattern of the worker is
  ASCII, and a code unit above 127 never equals, and never case-folds to, an ASCII one.
\<close>

text \<open>\<^verbatim>\<open>s.includes(sub)\<close>: does \<open>sub\<close> occur in \<open>s\<close>.\<close>

fun str_includes :: "string \<Rightarrow> string \<Rightarrow> bool" where
  "str_includes [] sub = (sub = [])"
| "str_includes (c # cs) sub = (prefix sub (c # cs) \<or> str_includes cs sub)"

text \<open>
  \<^verbatim>\<open>s.split(sep)\<close>: the pieces between the occurrences of \<open>sep\<close>, found from left
  to right without overlap. An empty separator splits into single code units.
\<close>

function split_from :: "string \<Rightarrow> string \<Rightarrow> string \<Rightarrow> string list" where
  "split_from sep cur [] = [cur]"
| "split_from sep cur (c # cs) =
     (if sep \<noteq> [] \<and> prefix sep (c # cs)
      then cur # split_from sep [] (drop (length sep) (c # cs))
      else split_from sep (cur @ [c]) cs)"
  by pat_completeness auto
termination
  by (relation "measure (\<lambda>(sep, cur, s). length s)") auto

definition str_split :: "string \<Rightarrow> string \<Rightarrow> string list" where
  "str_split s sep = (if sep = [] then map (\<lambda>c. [c]) s else split_from sep [] s)"

text \<open>The white space of \<^verbatim>\<open>\s\<close> and of \<^verbatim>\<open>trim()\<close>, among the code units below 256.\<close>

definition is_space :: "char \<Rightarrow> bool" where
  "is_space c = (c \<in> set [CHR 0x09, CHR 0x0A, CHR 0x0B, CHR 0x0C, CHR 0x0D, CHR 0x20, CHR 0xA0])"

definition is_digit :: "char \<Rightarrow> bool" where
  "is_digit c = (c \<in> set ''0123456789'')"

definition str_trim :: "string \<Rightarrow> string" where
  "str_trim s = rev (dropWhile is_space (rev (dropWhile is_space s)))"

text \<open>
  \<^verbatim>\<open>s.match(re)\<close> without the \<^verbatim>\<open>g\<close> flag returns the match at the leftmost
  position where the pattern matches. \<open>first_match p s\<close> tries the matcher \<open>p\<close>, which
  matches a pattern at the start of its argument, at every position of \<open>s\<close> in turn.
\<close>

fun first_match :: "(string \<Rightarrow> 'a option) \<Rightarrow> string \<Rightarrow> 'a option" where
  "first_match p [] = p []"
| "first_match p (c # cs) = (case p (c # cs) of Some r \<Rightarrow> Some r | None \<Rightarrow> first_match p cs)"

definition after_literal :: "string \<Rightarrow> string \<Rightarrow> string option" where
  "after_literal lit s = (if prefix lit s then Some (drop (length lit) s) else None)"

definition guard :: "bool \<Rightarrow> unit option" where
  "guard b = (if b then Some () else None)"

text \<open>Exactly \<open>n\<close> digits, \<^verbatim>\<open>\d{n}\<close>: the digits and the rest.\<close>

definition digits :: "nat \<Rightarrow> string \<Rightarrow> (string \<times> string) option" where
  "digits n s = (if n \<le> length s \<and> list_all is_digit (take n s) then Some (take n s, drop n s) else None)"

text \<open>
  \<^verbatim>\<open>/alt="([^"]+)"/\<close>, group 1. The class \<^verbatim>\<open>[^"]+\<close> is greedy and the pattern goes on
  with a quote, so the group is the whole run of code units up to the next quote; the run is
  not empty and the quote is there.
\<close>

definition titleMatch_at :: "string \<Rightarrow> string option" where
  \<open>titleMatch_at s = do {
     r \<leftarrow> after_literal ''alt="'' s;
     let cap = takeWhile (\<lambda>c. c \<noteq> CHR 0x22) r;
     _ \<leftarrow> guard (cap \<noteq> []);
     _ \<leftarrow> after_literal ''"'' (dropWhile (\<lambda>c. c \<noteq> CHR 0x22) r);
     Some cap
   }\<close>

definition titleMatch :: "string \<Rightarrow> string option" where
  "titleMatch row = first_match titleMatch_at row"

text \<open>
  \<^verbatim>\<open>/src="([^"]+\.jpg)"/\<close>, group 1: the run up to the next quote, which has to end in
  \<^verbatim>\<open>.jpg\<close> after at least one other code unit.
\<close>

definition posterMatch_at :: "string \<Rightarrow> string option" where
  \<open>posterMatch_at s = do {
     r \<leftarrow> after_literal ''src="'' s;
     let cap = takeWhile (\<lambda>c. c \<noteq> CHR 0x22) r;
     _ \<leftarrow> guard (suffix ''.jpg'' cap \<and> 4 < length cap);
     _ \<leftarrow> after_literal ''"'' (dropWhile (\<lambda>c. c \<noteq> CHR 0x22) r);
     Some cap
   }\<close>

definition posterMatch :: "string \<Rightarrow> string option" where
  "posterMatch row = first_match posterMatch_at row"

text \<open>\<^verbatim>\<open>/href="([^"]+)"/\<close>, group 1.\<close>

definition linkMatch_at :: "string \<Rightarrow> string option" where
  \<open>linkMatch_at s = do {
     r \<leftarrow> after_literal ''href="'' s;
     let cap = takeWhile (\<lambda>c. c \<noteq> CHR 0x22) r;
     _ \<leftarrow> guard (cap \<noteq> []);
     _ \<leftarrow> after_literal ''"'' (dropWhile (\<lambda>c. c \<noteq> CHR 0x22) r);
     Some cap
   }\<close>

definition linkMatch :: "string \<Rightarrow> string option" where
  "linkMatch row = first_match linkMatch_at row"

text \<open>
  \<^verbatim>\<open>/<span class="text-gray-600">(\d{2})\/(\d{2})\/(\d{4})<\/span>/\<close>, group 3.
\<close>

definition yearMatch_at :: "string \<Rightarrow> string option" where
  \<open>yearMatch_at s = do {
     r \<leftarrow> after_literal ''<span class="text-gray-600">'' s;
     (dd, r) \<leftarrow> digits 2 r;
     r \<leftarrow> after_literal ''/'' r;
     (mm, r) \<leftarrow> digits 2 r;
     r \<leftarrow> after_literal ''/'' r;
     (yyyy, r) \<leftarrow> digits 4 r;
     _ \<leftarrow> after_literal ''</span>'' r;
     Some yyyy
   }\<close>

definition yearMatch :: "string \<Rightarrow> string option" where
  "yearMatch row = first_match yearMatch_at row"

text \<open>
  \<^verbatim>\<open>/<span>([^<]+)<\/span>\s*<span class="mx-1 text-gray-600 select-none">\|<\/span>\s*<span><span title="Premiere">/\<close>,
  group 1. Each greedy run is followed by a literal that starts with a code unit outside the
  run's class, so the run is maximal.
\<close>

definition countryMatch_at :: "string \<Rightarrow> string option" where
  \<open>countryMatch_at s = do {
     r \<leftarrow> after_literal ''<span>'' s;
     let cap = takeWhile (\<lambda>c. c \<noteq> CHR ''<'') r;
     _ \<leftarrow> guard (cap \<noteq> []);
     r \<leftarrow> after_literal ''</span>'' (dropWhile (\<lambda>c. c \<noteq> CHR ''<'') r);
     r \<leftarrow> after_literal ''<span class="mx-1 text-gray-600 select-none">|</span>'' (dropWhile is_space r);
     _ \<leftarrow> after_literal ''<span><span title="Premiere">'' (dropWhile is_space r);
     Some cap
   }\<close>

definition countryMatch :: "string \<Rightarrow> string option" where
  "countryMatch row = first_match countryMatch_at row"

text \<open>\<^verbatim>\<open>/<span>([^<]+)<\/span>\s*<\/div><\/div>/\<close>, group 1.\<close>

definition genreMatch_at :: "string \<Rightarrow> string option" where
  \<open>genreMatch_at s = do {
     r \<leftarrow> after_literal ''<span>'' s;
     let cap = takeWhile (\<lambda>c. c \<noteq> CHR ''<'') r;
     _ \<leftarrow> guard (cap \<noteq> []);
     r \<leftarrow> after_literal ''</span>'' (dropWhile (\<lambda>c. c \<noteq> CHR ''<'') r);
     _ \<leftarrow> after_literal ''</div></div>'' (dropWhile is_space r);
     Some cap
   }\<close>

definition genreMatch :: "string \<Rightarrow> string option" where
  "genreMatch row = first_match genreMatch_at row"

section \<open>Candidate records\<close>

text \<open>
  The \<^verbatim>\<open>movie\<close> object of both extractors. A field that the source sets to
  \<^verbatim>\<open>null\<close> is \<open>None\<close>.
\<close>

record movie =
  title :: "string option"
  posterUrl :: "string option"
  link :: "string option"
  year :: "string option"
  country :: "string option"
  genre :: "string option"
  hasStreaming :: bool
  isMovie :: bool

datatype error = Error string

text \<open>Truthiness of a value that is a string or \<^verbatim>\<open>null\<close>/\<^verbatim>\<open>undefined\<close>.\<close>

definition truthy :: "string option \<Rightarrow> bool" where
  "truthy v = (case v of None \<Rightarrow> False | Some s \<Rightarrow> s \<noteq> [])"

definition origin :: string where
  "origin = ''https://flixpatrol.com''"

text \<open>
  The loop over the row fragments, in both extractors: the body runs inside
  \<^verbatim>\<open>try\<close>, a body that throws is logged and adds nothing, and the next fragment is
  processed. \<open>Inr None\<close> is a body that ends without \<^verbatim>\<open>movies.push\<close>.
\<close>

fun forEach_try :: "('r \<Rightarrow> error + movie option) \<Rightarrow> 'r list \<Rightarrow> movie list \<Rightarrow> movie list" where
  "forEach_try body [] movies = movies"
| "forEach_try body (row # rows) movies =
     (case body row of
        Inl e \<Rightarrow> forEach_try body rows movies
      | Inr None \<Rightarrow> forEach_try body rows movies
      | Inr (Some m) \<Rightarrow> forEach_try body rows (movies @ [m]))"

section \<open>The extractor over raw markup: \<^verbatim>\<open>parseMovieData\<close>\<close>

definition row_marker :: string where
  \<open>row_marker = ''<tr class="table-group">''\<close>

text \<open>The body of \<^verbatim>\<open>movieRows.forEach\<close>. No operation of the body throws.\<close>

definition parse_row :: "string \<Rightarrow> error + movie option" where
  "parse_row row =
    (let m = \<lparr> title = titleMatch row,
               posterUrl = map_option (\<lambda>p. origin @ p) (posterMatch row),
               link = map_option (\<lambda>l. origin @ l) (linkMatch row),
               year = yearMatch row,
               country = countryMatch row,
               genre = genreMatch row,
               hasStreaming =
                 (str_includes row ''Netflix'' \<or> str_includes row ''Amazon'' \<or>
                  str_includes row ''Disney'' \<or> str_includes row ''HBO'' \<or>
                  str_includes row ''Hulu'' \<or> str_includes row ''Apple TV'' \<or>
                  str_includes row ''streaming'' \<or> str_includes row ''Stream''),
               isMovie = str_includes row ''Movie'' \<rparr>
     in if truthy (title m) \<and> isMovie m then Inr (Some m) else Inr None)"

definition movieRows :: "string \<Rightarrow> string list" where
  "movieRows html = drop 1 (str_split html row_marker)"

definition parseMovieData :: "string \<Rightarrow> movie list" where
  "parseMovieData html = forEach_try parse_row (movieRows html) []"

section \<open>The extractor over the parsed document: \<^verbatim>\<open>scrapeFlixPatrol\<close> with cheerio\<close>

text \<open>
  The document that \<^verbatim>\<open>cheerio.load\<close> returns is a forest of text and element nodes.
  A cheerio selection is the list of its nodes in document order.
\<close>

datatype node = Text string | Element string "(string \<times> string) list" "node list"

fun text_content :: "node \<Rightarrow> string" where
  "text_content (Text s) = s"
| "text_content (Element t as cs) = concat (map text_content cs)"

fun descendants :: "node \<Rightarrow> node list" where
  "descendants (Text s) = []"
| "descendants (Element t as cs) = concat (map (\<lambda>c. c # descendants c) cs)"

text \<open>The selectors the worker uses: \<^verbatim>\<open>t\<close>, \<^verbatim>\<open>t.c\<close>, \<^verbatim>\<open>t[a]\<close> and \<^verbatim>\<open>t[a="v"]\<close>.\<close>

datatype selector =
  Tag string | TagClass string string | TagHasAttr string string | TagAttrEq string string string

fun tokens :: "string \<Rightarrow> string \<Rightarrow> string list" where
  "tokens cur [] = (if cur = [] then [] else [cur])"
| "tokens cur (c # cs) =
     (if is_space c then (if cur = [] then tokens [] cs else cur # tokens [] cs)
      else tokens (cur @ [c]) cs)"

fun matches :: "selector \<Rightarrow> node \<Rightarrow> bool" where
  "matches sel (Text s) = False"
| "matches (Tag t) (Element t' as cs) = (t' = t)"
| "matches (TagClass t c) (Element t' as cs) =
     (t' = t \<and> (case map_of as ''class'' of None \<Rightarrow> False | Some v \<Rightarrow> c \<in> set (tokens [] v)))"
| "matches (TagHasAttr t a) (Element t' as cs) = (t' = t \<and> map_of as a \<noteq> None)"
| "matches (TagAttrEq t a v) (Element t' as cs) = (t' = t \<and> map_of as a = Some v)"

text \<open>\<^verbatim>\<open>$(sel)\<close> on the document, \<^verbatim>\<open>$(row).find(sel)\<close>, \<^verbatim>\<open>.attr(name)\<close>, \<^verbatim>\<open>.text()\<close>.\<close>

definition select :: "node list \<Rightarrow> selector \<Rightarrow> node list" where
  "select doc sel = filter (matches sel) (concat (map (\<lambda>n. n # descendants n) doc))"

definition find_in :: "node \<Rightarrow> selector \<Rightarrow> node list" where
  "find_in row sel = filter (matches sel) (descendants row)"

fun attr :: "node list \<Rightarrow> string \<Rightarrow> string option" where
  "attr [] name = None"
| "attr (Text s # ns) name = None"
| "attr (Element t as cs # ns) name = map_of as name"

definition text_of :: "node list \<Rightarrow> string" where
  "text_of ns = concat (map text_content ns)"

text \<open>\<^verbatim>\<open>xs[i]\<close> is \<^verbatim>\<open>undefined\<close> out of range, and \<^verbatim>\<open>$(undefined)\<close> is the empty selection.\<close>

definition at_index :: "'a list \<Rightarrow> nat \<Rightarrow> 'a option" where
  "at_index xs i = (if i < length xs then Some (xs ! i) else None)"

definition wrap :: "node option \<Rightarrow> node list" where
  "wrap n = (case n of None \<Rightarrow> [] | Some x \<Rightarrow> [x])"

text \<open>\<^verbatim>\<open>v || null\<close> and \<^verbatim>\<open>v || ''\<close> on a string that may be \<^verbatim>\<open>undefined\<close>.\<close>

definition or_null :: "string option \<Rightarrow> string option" where
  "or_null v = (if truthy v then v else None)"

definition or_empty :: "string option \<Rightarrow> string" where
  "or_empty v = (case v of None \<Rightarrow> [] | Some s \<Rightarrow> s)"

text \<open>
  The \<^verbatim>\<open>i\<close> flag compares code units after upper-casing them. The pattern is ASCII, and
  a code unit above 127 is never folded onto an ASCII one, so folding the ASCII letters
  decides the test.
\<close>

definition to_upper :: "char \<Rightarrow> char" where
  "to_upper c = (case map_of (zip ''abcdefghijklmnopqrstuvwxyz'' ''ABCDEFGHIJKLMNOPQRSTUVWXYZ'') c of
                   None \<Rightarrow> c | Some u \<Rightarrow> u)"

definition streaming_alternatives :: "string list" where
  "streaming_alternatives =
     [''Netflix'', ''Amazon'', ''Disney'', ''HBO'', ''Hulu'', ''Apple TV'', ''streaming'', ''Stream'']"

text \<open>\<^verbatim>\<open>/a1|a2|.../i.test(s)\<close> for literal alternatives.\<close>

definition regex_test_i :: "string list \<Rightarrow> string \<Rightarrow> bool" where
  "regex_test_i alts s = list_ex (\<lambda>a. str_includes (map to_upper s) (map to_upper a)) alts"

text \<open>The body of \<^verbatim>\<open>$('tr.table-group').each\<close>. No operation of the body throws.\<close>

definition scrape_row :: "node \<Rightarrow> error + movie option" where
  "scrape_row row =
    (let title = or_null (attr (find_in row (TagHasAttr ''img'' ''alt'')) ''alt'');
         posterSrc = or_empty (attr (find_in row (Tag ''img'')) ''src'');
         posterUrl = (if posterSrc \<noteq> [] then Some (origin @ posterSrc) else None);
         linkHref = or_empty (attr (find_in row (Tag ''a'')) ''href'');
         link = (if linkHref \<noteq> [] then Some (origin @ linkHref) else None);
         premiereSpan = find_in row (TagAttrEq ''span'' ''title'' ''Premiere'');
         fullDateText = str_trim (text_of premiereSpan);
         year = or_null (at_index (str_split fullDateText ''/'') 2);
         allSpans = find_in row (Tag ''span'');
         country = or_null (Some (str_trim (text_of (wrap (at_index allSpans 2)))));
         genre = or_null (Some (str_trim (text_of (wrap (at_index allSpans 4)))));
         rowText = text_content row;
         hasStreaming = regex_test_i streaming_alternatives rowText;
         isMovie = str_includes rowText ''Movie''
     in if truthy title \<and> isMovie
        then Inr (Some \<lparr> title = title, posterUrl = posterUrl, link = link, year = year,
                         country = country, genre = genre, hasStreaming = hasStreaming,
                         isMovie = True \<rparr>)
        else Inr None)"

definition scrape_rows :: "node list \<Rightarrow> movie list" where
  "scrape_rows doc = forEach_try scrape_row (select doc (TagClass ''tr'' ''table-group'')) []"

section \<open>Fetching the page\<close>

text \<open>
  The response of \<^verbatim>\<open>fetch\<close>; \<open>body_text\<close> is what awaiting \<^verbatim>\<open>response.text()\<close>
  does.
\<close>

record 'b response =
  ok :: bool
  status :: nat
  body_text :: "error + 'b"

definition digit_char :: "nat \<Rightarrow> char" where
  "digit_char d = ''0123456789'' ! d"

function show_nat :: "nat \<Rightarrow> string" where
  "show_nat n = (if n < 10 then [digit_char n] else show_nat (n div 10) @ [digit_char (n mod 10)])"
  by pat_completeness auto
termination
  by (relation "measure id") auto

text \<open>
  \<^verbatim>\<open>scrapeFlixPatrol\<close>, given what \<^verbatim>\<open>fetch\<close> did: it threw, or it returned a
  response. The extractor that runs on the body is the only difference between the two files,
  so it is a parameter here.
\<close>

definition scrapeFlixPatrol_with :: "('b \<Rightarrow> movie list) \<Rightarrow> error + 'b response \<Rightarrow> error + movie list" where
  "scrapeFlixPatrol_with extract fetched =
    (case fetched of
       Inl e \<Rightarrow> Inl e
     | Inr resp \<Rightarrow>
         if \<not> ok resp then Inl (Error (''HTTP error! status: '' @ show_nat (status resp)))
         else (case body_text resp of Inl e \<Rightarrow> Inl e | Inr html \<Rightarrow> Inr (extract html)))"

text \<open>In \<^verbatim>\<open>src/server/index.js\<close> the body is loaded into cheerio.\<close>

definition scrapeFlixPatrol :: "error + node list response \<Rightarrow> error + movie list" where
  "scrapeFlixPatrol fetched = scrapeFlixPatrol_with scrape_rows fetched"

text \<open>In the other file the body goes to \<^verbatim>\<open>parseMovieData\<close>.\<close>

definition scrapeFlixPatrol_markup :: "error + string response \<Rightarrow> error + movie list" where
  "scrapeFlixPatrol_markup fetched = scrapeFlixPatrol_with parseMovieData fetched"

section \<open>The filter of the two handlers\<close>

text \<open>
  \<^verbatim>\<open>scrapedData.filter(movie => ...)\<close>, the same expression in \<^verbatim>\<open>/scheduled\<close> and in
  \<^verbatim>\<open>/scrape-now\<close> of both files. The year it keeps is the constant \<^verbatim>\<open>'2025'\<close>.
\<close>

definition filtered2025Movies :: "movie list \<Rightarrow> movie list" where
  "filtered2025Movies scrapedData =
     filter (\<lambda>movie. let is2025 = (year movie = Some ''2025'');
                         hasNoStreaming = (\<not> hasStreaming movie)
                     in is2025 \<and> hasNoStreaming) scrapedData"

text \<open>
  The filter in the words of the specification: the records of the target year that have
  no streaming signal.
\<close>

definition spec_filter :: "string \<Rightarrow> movie list \<Rightarrow> movie list" where
  "spec_filter targetYear records =
     filter (\<lambda>r. year r = Some targetYear \<and> hasStreaming r = False) records"

section \<open>Storing the records: \<^verbatim>\<open>storeMoviesInDatabase\<close>\<close>

text \<open>
  The storage handle \<^verbatim>\<open>sql\<close> is an argument of the function. Awaiting the upsert
  statement for a record either throws or returns, and changes the state of the storage.
\<close>

type_synonym 's sql = "movie \<Rightarrow> 's \<Rightarrow> (error + unit) \<times> 's"

fun store_loop :: "'s sql \<Rightarrow> movie list \<Rightarrow> nat \<Rightarrow> 's \<Rightarrow> nat \<times> 's" where
  "store_loop sql [] storedCount s = (storedCount, s)"
| "store_loop sql (movie # movies) storedCount s =
     (case sql movie s of
        (Inr u, s') \<Rightarrow> store_loop sql movies (storedCount + 1) s'
      | (Inl e, s') \<Rightarrow> store_loop sql movies storedCount s')"

definition storeMoviesInDatabase :: "'s sql \<Rightarrow> movie list \<Rightarrow> 's \<Rightarrow> nat \<times> 's" where
  "storeMoviesInDatabase sql movies s = store_loop sql movies 0 s"

text \<open>
  What happens to each record of the sequence in turn, in the words of the specification:
  \<open>True\<close> where the write of the record succeeded.
\<close>

fun attempt_outcomes :: "'s sql \<Rightarrow> movie list \<Rightarrow> 's \<Rightarrow> bool list" where
  "attempt_outcomes sql [] s = []"
| "attempt_outcomes sql (movie # movies) s =
     (case sql movie s of (r, s') \<Rightarrow> (case r of Inl e \<Rightarrow> False | Inr u \<Rightarrow> True) # attempt_outcomes sql movies s')"

subsection \<open>The upsert statement\<close>

text \<open>
  The table \<^verbatim>\<open>movies\<close> with the columns the statement names. The statement is
  \<^verbatim>\<open>INSERT ... ON CONFLICT (title, year) DO UPDATE SET ...\<close>: the table has a unique
  index on \<^verbatim>\<open>(title, year)\<close>, and a row conflicts with the values to insert when it has
  the same title and year, none of them \<^verbatim>\<open>NULL\<close>.
\<close>

record stored =
  col_title :: "string option"
  col_poster_url :: "string option"
  col_link :: "string option"
  col_year :: "string option"
  col_country :: "string option"
  col_genre :: "string option"
  col_has_streaming :: bool
  col_updated_at :: nat

definition conflicts :: "movie \<Rightarrow> stored \<Rightarrow> bool" where
  "conflicts m r = (title m \<noteq> None \<and> year m \<noteq> None \<and> col_title r = title m \<and> col_year r = year m)"

definition do_update :: "nat \<Rightarrow> movie \<Rightarrow> stored \<Rightarrow> stored" where
  "do_update now m r =
     r\<lparr> col_poster_url := posterUrl m, col_link := link m, col_country := country m,
        col_genre := genre m, col_has_streaming := hasStreaming m, col_updated_at := now \<rparr>"

definition inserted :: "nat \<Rightarrow> movie \<Rightarrow> stored" where
  "inserted now m =
     \<lparr> col_title = title m, col_poster_url = posterUrl m, col_link = link m,
       col_year = year m, col_country = country m, col_genre = genre m,
       col_has_streaming = hasStreaming m, col_updated_at = now \<rparr>"

definition upsert :: "nat \<Rightarrow> movie \<Rightarrow> stored list \<Rightarrow> stored list" where
  "upsert now m rows =
     (if list_ex (conflicts m) rows
      then map (\<lambda>r. if conflicts m r then do_update now m r else r) rows
      else rows @ [inserted now m])"

text \<open>
  A storage: the table and the clock that \<^verbatim>\<open>NOW()\<close> reads. Whether the storage
  rejects a write (a constraint, a lost connection) is outside the worker: \<open>fault\<close> gives the
  error of a rejected write. A rejected statement leaves the table as it was.
\<close>

record db =
  movies_table :: "stored list"
  clock :: nat

definition neon_sql :: "(movie \<Rightarrow> db \<Rightarrow> error option) \<Rightarrow> db sql" where
  "neon_sql fault m d =
     (case fault m d of
        Some e \<Rightarrow> (Inl e, d\<lparr> clock := Suc (clock d) \<rparr>)
      | None \<Rightarrow> (Inr (), \<lparr> movies_table = upsert (clock d) m (movies_table d),
                            clock = Suc (clock d) \<rparr>))"

section \<open>The handlers \<^verbatim>\<open>/scheduled\<close> and \<^verbatim>\<open>/scrape-now\<close>\<close>

datatype json =
  JNull | JBool bool | JNum nat | JStr string | JArr "json list" | JObj "(string \<times> json) list"
  | JMovie movie

record http_response =
  http_status :: nat
  http_headers :: "(string \<times> string) list"
  http_body :: json

definition corsHeaders :: "(string \<times> string) list" where
  "corsHeaders =
     [(''Access-Control-Allow-Origin'', ''*''),
      (''Access-Control-Allow-Methods'', ''GET, POST, PUT, DELETE, OPTIONS''),
      (''Access-Control-Allow-Headers'', ''Content-Type'')]"

definition error_message :: "error \<Rightarrow> string" where
  "error_message e = (case e of Error msg \<Rightarrow> msg)"

text \<open>
  \<open>scraped\<close> is what \<^verbatim>\<open>await scrapeFlixPatrol()\<close> did, \<open>db\<close> what \<^verbatim>\<open>getDb(env)\<close>
  did, \<open>now\<close> what \<^verbatim>\<open>new Date().toISOString()\<close> returns, and \<open>s\<close> the state of the
  storage when the handler starts.
\<close>

definition scheduled :: "error + movie list \<Rightarrow> error + 's sql \<Rightarrow> string \<Rightarrow> 's \<Rightarrow> http_response \<times> 's" where
  "scheduled scraped db now s =
    (let failed = (\<lambda>e. \<lparr> http_status = 500, http_headers = [],
                         http_body = JObj [(''success'', JBool False),
                                           (''error'', JStr (error_message e)),
                                           (''timestamp'', JStr now)] \<rparr>)
     in case scraped of
          Inl e \<Rightarrow> (failed e, s)
        | Inr scrapedData \<Rightarrow>
            (let filtered = filtered2025Movies scrapedData
             in case db of
                  Inl e \<Rightarrow> (failed e, s)
                | Inr sql \<Rightarrow>
                    (case storeMoviesInDatabase sql filtered s of
                       (stored, s') \<Rightarrow>
                         (\<lparr> http_status = 200, http_headers = [],
                            http_body = JObj
                              [(''success'', JBool True),
                               (''timestamp'', JStr now),
                               (''totalScraped'', JNum (length scrapedData)),
                               (''filtered2025Count'', JNum (length filtered)),
                               (''storedCount'', JNum stored),
                               (''message'', JStr (''Successfully scraped and stored '' @
                                                   show_nat stored @ '' movies''))] \<rparr>, s'))))"

definition scrape_now :: "error + movie list \<Rightarrow> error + 's sql \<Rightarrow> string \<Rightarrow> 's \<Rightarrow> http_response \<times> 's" where
  "scrape_now scraped db now s =
    (let failed = (\<lambda>e. \<lparr> http_status = 500, http_headers = corsHeaders,
                         http_body = JObj [(''success'', JBool False),
                                           (''error'', JStr (error_message e))] \<rparr>)
     in case scraped of
          Inl e \<Rightarrow> (failed e, s)
        | Inr scrapedData \<Rightarrow>
            (let filtered = filtered2025Movies scrapedData
             in case db of
                  Inl e \<Rightarrow> (failed e, s)
                | Inr sql \<Rightarrow>
                    (case storeMoviesInDatabase sql filtered s of
                       (stored, s') \<Rightarrow>
                         (\<lparr> http_status = 200, http_headers = corsHeaders,
                            http_body = JObj
                              [(''success'', JBool True),
                               (''timestamp'', JStr now),
                               (''totalScraped'', JNum (length scrapedData)),
                               (''filtered2025Count'', JNum (length filtered)),
                               (''storedCount'', JNum stored),
                               (''movies'', JArr (map JMovie filtered))] \<rparr>, s'))))"

text \<open>Reading a field of a JSON object, and the names of its fields.\<close>

definition field :: "json \<Rightarrow> string \<Rightarrow> json option" where
  "field j k = (case j of JObj kvs \<Rightarrow> map_of kvs k | _ \<Rightarrow> None)"

definition field_names :: "json \<Rightarrow> string list" where
  "field_names j = (case j of JObj kvs \<Rightarrow> map fst kvs | _ \<Rightarrow> [])"

text \<open>What one run of a loop body adds to \<^verbatim>\<open>movies\<close>.\<close>

definition pushed :: "error + movie option \<Rightarrow> movie list" where
  "pushed r = (case r of Inl e \<Rightarrow> [] | Inr None \<Rightarrow> [] | Inr (Some m) \<Rightarrow> [m])"

section \<open>Example inputs\<close>

text \<open>
  A row of the page as cheerio sees it: a poster with its link, the category, and the spans
  with the country, the premiere date and the genre.
\<close>

definition sinners_row :: node where
  "sinners_row =
     Element ''tr'' [(''class'', ''table-group'')]
       [Element ''td'' []
          [Element ''a'' [(''href'', ''/title/sinners/'')]
             [Element ''img'' [(''alt'', ''Sinners''), (''src'', ''/p/sinners.jpg'')] []]],
        Element ''td'' [] [Text ''Movie''],
        Element ''td'' []
          [Element ''span'' [] [Text ''1''], Element ''span'' [] [Text ''+2''],
           Element ''span'' [] [Text ''United States''],
           Element ''span'' [(''title'', ''Premiere'')] [Text ''18/04/2025''],
           Element ''span'' [] [Text ''Horror'']]]"



text \<open>The same rows as fragments of raw markup, the text after a row marker.\<close>

definition sinners_fragment :: string where
  \<open>sinners_fragment =
     ''<td><a href="/title/sinners/"><img alt="Sinners" src="/p/sinners.jpg"></a></td><td>Movie</td><td><span class="text-gray-600">18/04/2025</span></td></tr>''\<close>



text \<open>A row whose poster and link are absolute URLs already.\<close>

definition cdn_row :: node where
  "cdn_row =
     Element ''tr'' [(''class'', ''table-group'')]
       [Element ''td'' []
          [Element ''a'' [(''href'', ''https://flixpatrol.com/title/sinners/'')]
             [Element ''img'' [(''alt'', ''Sinners''),
                              (''src'', ''https://cdn.flixpatrol.com/p/sinners.jpg'')] []]],
        Element ''td'' [] [Text ''Movie'']]"

definition cdn_fragment :: string where
  \<open>cdn_fragment =
     ''<td><a href="https://flixpatrol.com/title/sinners/"><img alt="Sinners" src="https://cdn.flixpatrol.com/p/sinners.jpg"></a></td><td>Movie</td></tr>''\<close>

text \<open>A row that names a streaming service in lower case and the generic term in upper case.\<close>

definition shouting_row :: node where
  "shouting_row =
     Element ''tr'' [(''class'', ''table-group'')]
       [Element ''td'' [] [Element ''img'' [(''alt'', ''Sinners''), (''src'', ''/p/sinners.jpg'')] []],
        Element ''td'' [] [Text ''Movie''],
        Element ''td'' [] [Text ''STREAMING on netflix'']]"

definition shouting_fragment :: string where
  \<open>shouting_fragment =
     ''<td><img alt="Sinners" src="/p/sinners.jpg"></td><td>Movie</td><td>STREAMING on netflix</td></tr>''\<close>

text \<open>A row whose premiere date has a two-digit year.\<close>

definition short_year_row :: node where
  "short_year_row =
     Element ''tr'' [(''class'', ''table-group'')]
       [Element ''td'' [] [Element ''img'' [(''alt'', ''Sinners''), (''src'', ''/p/sinners.jpg'')] []],
        Element ''td'' [] [Text ''Movie''],
        Element ''td'' [] [Element ''span'' [(''title'', ''Premiere'')] [Text ''18/04/25'']]]"

text \<open>A fragment whose only \<open>Movie\<close> is inside the title of a series.\<close>

definition series_fragment :: string where
  \<open>series_fragment =
     ''<td><img alt="The Movie Critic" src="/p/critic.jpg"></td><td>TV Show</td></tr>''\<close>

definition series_row :: node where
  "series_row =
     Element ''tr'' [(''class'', ''table-group'')]
       [Element ''td'' []
          [Element ''img'' [(''alt'', ''The Movie Critic''), (''src'', ''/p/critic.jpg'')] []],
        Element ''td'' [] [Text ''TV Show'']]"



text \<open>A filtered record, a storage that rejects the writes of one title, and an empty storage.\<close>

definition record_2025 :: "string \<Rightarrow> string option \<Rightarrow> movie" where
  "record_2025 t g =
     \<lparr> title = Some t, posterUrl = Some ''https://flixpatrol.com/p/poster.jpg'', link = None,
       year = Some ''2025'', country = Some ''United States'', genre = g,
       hasStreaming = False, isMovie = True \<rparr>"

definition rejects_title :: "string \<Rightarrow> movie \<Rightarrow> db \<Rightarrow> error option" where
  "rejects_title t m d = (if title m = Some t then Some (Error ''constraint violation'') else None)"

definition no_fault :: "movie \<Rightarrow> db \<Rightarrow> error option" where
  "no_fault m d = None"

definition empty_db :: db where
  "empty_db = \<lparr> movies_table = [], clock = 0 \<rparr>"

section \<open>Lemmas on the loops\<close>

lemma forEach_try_acc:
  "forEach_try body rows movies = movies @ concat (map (\<lambda>row. pushed (body row)) rows)"
proof (induction rows arbitrary: movies)
  case Nil
  then show ?case by simp
next
  case (Cons row rows)
  then show ?case
    by (cases "body row") (auto simp: pushed_def split: option.splits)
qed

lemma forEach_try_member:
  "m \<in> set (forEach_try body rows []) \<Longrightarrow> \<exists>row \<in> set rows. body row = Inr (Some m)"
  by (auto simp: forEach_try_acc pushed_def split: sum.splits option.splits)

lemma first_match_Some:
  "first_match p s = Some r \<Longrightarrow> \<exists>s'. suffix s' s \<and> p s' = Some r"
proof (induction s)
  case Nil
  then show ?case by auto
next
  case (Cons c cs)
  show ?case
  proof (cases "p (c # cs)")
    case None
    with Cons.prems have "first_match p cs = Some r" by simp
    with Cons.IH obtain s' where "suffix s' cs" "p s' = Some r" by blast
    then show ?thesis by (auto intro: suffix_ConsI)
  next
    case (Some a)
    with Cons.prems have "p (c # cs) = Some r" by simp
    then show ?thesis by blast
  qed
qed

lemma store_loop_count:
  "fst (store_loop sql movies n s) = n + length (filter (\<lambda>b. b) (attempt_outcomes sql movies s))"
proof (induction movies arbitrary: n s)
  case Nil
  then show ?case by simp
next
  case (Cons m ms)
  then show ?case
    by (cases "sql m s") (auto split: sum.splits)
qed

lemma store_loop_state:
  "snd (store_loop sql movies n s) = foldl (\<lambda>st m. snd (sql m st)) s movies"
proof (induction movies arbitrary: n s)
  case Nil
  then show ?case by simp
next
  case (Cons m ms)
  then show ?case
    by (cases "sql m s") (auto split: sum.splits)
qed

lemma attempt_outcomes_length: "length (attempt_outcomes sql movies s) = length movies"
  by (induction movies arbitrary: s) (auto split: prod.splits)

lemma stored_le: "fst (storeMoviesInDatabase sql movies s) \<le> length movies"
proof -
  have "length (filter (\<lambda>b. b) (attempt_outcomes sql movies s))
          \<le> length (attempt_outcomes sql movies s)"
    by (rule length_filter_le)
  then show ?thesis
    by (simp add: storeMoviesInDatabase_def store_loop_count attempt_outcomes_length)
qed

lemma filtered_le: "length (filtered2025Movies scrapedData) \<le> length scrapedData"
  by (simp add: filtered2025Movies_def)

section \<open>Lemmas on the extracted title\<close>

lemma titleMatch_at_nonempty: "titleMatch_at s = Some t \<Longrightarrow> t \<noteq> []"
  by (auto simp: titleMatch_at_def guard_def Let_def split: bind_splits if_splits)

lemma titleMatch_nonempty: "titleMatch row = Some t \<Longrightarrow> t \<noteq> []"
  unfolding titleMatch_def by (blast dest: first_match_Some titleMatch_at_nonempty)

lemma truthy_titleMatch: "truthy (titleMatch row) = (titleMatch row \<noteq> None)"
  by (cases "titleMatch row") (auto simp: truthy_def dest: titleMatch_nonempty)

lemma truthy_or_null: "truthy (or_null v) = (or_null v \<noteq> None)"
  by (cases v) (auto simp: truthy_def or_null_def)

lemma scrape_row_emits:
  "(\<exists>m. scrape_row row = Inr (Some m)) =
     (or_null (attr (find_in row (TagHasAttr ''img'' ''alt'')) ''alt'') \<noteq> None
      \<and> str_includes (text_content row) ''Movie'')"
  by (simp add: scrape_row_def Let_def truthy_or_null)

lemma scrape_row_title: "scrape_row row = Inr (Some m) \<Longrightarrow> title m \<noteq> None"
  by (auto simp: scrape_row_def Let_def truthy_or_null split: if_splits)

lemma parse_row_emits:
  "(\<exists>m. parse_row fragment = Inr (Some m)) =
     (titleMatch fragment \<noteq> None \<and> str_includes fragment ''Movie'')"
  by (simp add: parse_row_def Let_def truthy_titleMatch)

lemma parse_row_title: "parse_row fragment = Inr (Some m) \<Longrightarrow> title m \<noteq> None"
  by (auto simp: parse_row_def Let_def truthy_titleMatch split: if_splits)



section \<open>Lemmas on splitting a document at the row marker\<close>

text \<open>\<^verbatim>\<open>includes\<close> is the sublist relation.\<close>

lemma str_includes_sublist: "str_includes s sub = sublist sub s"
  by (induction s) (auto simp: sublist_Cons_right)

lemma str_includes_map: "str_includes s sub \<Longrightarrow> str_includes (map f s) (map f sub)"
  unfolding str_includes_sublist sublist_def by (metis map_append)





lemma pushed_nothing: "\<forall>m. body r \<noteq> Inr (Some m) \<Longrightarrow> pushed (body r) = []"
  by (cases "body r") (auto simp: pushed_def split: option.splits)

lemma pushed_each:
  "\<forall>r \<in> set rows. \<exists>m. body r = Inr (Some m) \<Longrightarrow>
     length (concat (map (\<lambda>row. pushed (body row)) rows)) = length rows"
  by (induction rows) (auto simp: pushed_def)

section \<open>The emitted records\<close>


text \<open>
  The catch of the loop, for every body: a row on which the body throws, or ends without a
  record, adds nothing, and the other rows add what they add without it.
\<close>

lemma forEach_try_skips:
  assumes "\<forall>m. body bad \<noteq> Inr (Some m)"
  shows "forEach_try body (before @ bad # after) [] = forEach_try body (before @ after) []"
  using pushed_nothing[of body bad, OF assms] by (simp add: forEach_try_acc)

text \<open>
  The cheerio extractor pushes a record for a row exactly when the extracted title is not
  null and the text content of the row contains \<open>Movie\<close>; its records are the records of the
  rows in order, and none has a null title.
\<close>

lemma scrape_rows_emit_iff_title_and_movie:
  "((\<exists>m. scrape_row row = Inr (Some m)) \<longleftrightarrow>
      (or_null (attr (find_in row (TagHasAttr ''img'' ''alt'')) ''alt'') \<noteq> None
       \<and> str_includes (text_content row) ''Movie''))
   \<and> scrape_rows doc =
       concat (map (\<lambda>row. pushed (scrape_row row)) (select doc (TagClass ''tr'' ''table-group'')))
   \<and> (\<forall>m \<in> set (scrape_rows doc). title m \<noteq> None)"
proof (intro conjI)
  show "\<forall>m \<in> set (scrape_rows doc). title m \<noteq> None"
    unfolding scrape_rows_def by (blast dest: forEach_try_member scrape_row_title)
qed (simp_all add: scrape_row_emits scrape_rows_def forEach_try_acc)

text \<open>
  \<^verbatim>\<open>parseMovieData\<close> pushes a record for a fragment exactly when the title pattern matches
  and the fragment, as a string of markup, contains \<open>Movie\<close>; none of its records has a null
  title.
\<close>

lemma parseMovieData_emits_iff_title_and_movie_in_markup:
  "((\<exists>m. parse_row fragment = Inr (Some m)) \<longleftrightarrow>
        (titleMatch fragment \<noteq> None \<and> str_includes fragment ''Movie''))
   \<and> parseMovieData html = concat (map (\<lambda>row. pushed (parse_row row)) (movieRows html))
   \<and> (\<forall>m \<in> set (parseMovieData html). title m \<noteq> None)"
proof (intro conjI)
  show "\<forall>m \<in> set (parseMovieData html). title m \<noteq> None"
    unfolding parseMovieData_def by (blast dest: forEach_try_member parse_row_title)
qed (simp_all add: parse_row_emits parseMovieData_def forEach_try_acc)

text \<open>
  C1. \<^verbatim>\<open>parseMovieData\<close> looks for \<open>Movie\<close> in the markup of the fragment, not in its
  visible text. On a row of the category \<open>TV Show\<close> whose image has the alternative text
  \<open>The Movie Critic\<close> it emits a record, flagged as a movie, although the visible text of
  the row has no \<open>Movie\<close>; the cheerio extractor emits nothing for the same row.
\<close>

theorem parseMovieData_finds_Movie_in_markup:
  "map (\<lambda>m. (title m, isMovie m)) (parseMovieData (row_marker @ series_fragment)) =
     [(Some ''The Movie Critic'', True)]
   \<and> str_includes (text_content series_row) ''Movie'' = False
   \<and> scrape_rows [series_row] = []"
  by code_simp

section \<open>Fragments that yield no record\<close>




section \<open>The filter\<close>

text \<open>
  C8. The filter of the handlers returns the subsequence of the records whose year is the
  target year and that have no streaming signal, the target year being \<open>2025\<close>, and
  filtering a filtered sequence again with the same target year changes nothing.
\<close>

theorem filter_is_idempotent_subsequence:
  "filtered2025Movies records = spec_filter ''2025'' records
   \<and> subseq (spec_filter targetYear records) records
   \<and> spec_filter targetYear (spec_filter targetYear records) = spec_filter targetYear records
   \<and> filtered2025Movies (filtered2025Movies records) = filtered2025Movies records"
  by (simp add: filtered2025Movies_def spec_filter_def Let_def)

theorem filter_is_idempotent_subsequence_witness:
  "filtered2025Movies
     [record_2025 ''Sinners'' None, (record_2025 ''Mickey 17'' None)\<lparr> hasStreaming := True \<rparr>,
      (record_2025 ''Heat'' None)\<lparr> year := Some ''1995'' \<rparr>, (record_2025 ''Lost'' None)\<lparr> year := None \<rparr>]
     = [record_2025 ''Sinners'' None]
   \<and> filtered2025Movies [record_2025 ''Sinners'' None] = [record_2025 ''Sinners'' None]"
  using filter_is_idempotent_subsequence[of "[record_2025 ''Sinners'' None]" "''2025''"]
  by (simp add: filtered2025Movies_def record_2025_def)

section \<open>The storage loop and the upsert\<close>

text \<open>
  C2. The loop of \<^verbatim>\<open>storeMoviesInDatabase\<close> attempts the write of every record in turn,
  whatever the writes before it did: the storage ends in the state that all the statements,
  each on the state the one before left, produce. The count it returns is the number of
  records whose write succeeded, and the function returns a count, never an error.
\<close>

theorem stored_count_counts_successful_writes:
  "fst (storeMoviesInDatabase sql movies s) =
     length (filter (\<lambda>succeeded. succeeded) (attempt_outcomes sql movies s))
   \<and> length (attempt_outcomes sql movies s) = length movies
   \<and> snd (storeMoviesInDatabase sql movies s) = foldl (\<lambda>st m. snd (sql m st)) s movies"
  by (simp add: storeMoviesInDatabase_def store_loop_count store_loop_state
        attempt_outcomes_length)

text \<open>
  The scenario of the specification: three filtered records, the write of the second one is
  rejected. The handler answers with status 200, a filtered count of 3 and a stored count
  of 2, and the first and the third record are in the table.
\<close>

theorem stored_count_counts_successful_writes_witness:
  "attempt_outcomes (neon_sql (rejects_title ''Mickey 17''))
     [record_2025 ''Sinners'' None, record_2025 ''Mickey 17'' None, record_2025 ''Warfare'' None]
     empty_db = [True, False, True]
   \<and> fst (storeMoviesInDatabase (neon_sql (rejects_title ''Mickey 17''))
       [record_2025 ''Sinners'' None, record_2025 ''Mickey 17'' None, record_2025 ''Warfare'' None]
       empty_db) = 2
   \<and> map col_title (movies_table (snd (storeMoviesInDatabase (neon_sql (rejects_title ''Mickey 17''))
       [record_2025 ''Sinners'' None, record_2025 ''Mickey 17'' None, record_2025 ''Warfare'' None]
       empty_db))) = [Some ''Sinners'', Some ''Warfare'']
   \<and> fst (scheduled
       (Inr [record_2025 ''Sinners'' None, record_2025 ''Mickey 17'' None, record_2025 ''Warfare'' None])
       (Inr (neon_sql (rejects_title ''Mickey 17''))) ''2025-07-01T00:00:00.000Z'' empty_db) =
       \<lparr> http_status = 200, http_headers = [],
         http_body = JObj
           [(''success'', JBool True), (''timestamp'', JStr ''2025-07-01T00:00:00.000Z''),
            (''totalScraped'', JNum 3), (''filtered2025Count'', JNum 3), (''storedCount'', JNum 2),
            (''message'', JStr ''Successfully scraped and stored 2 movies'')] \<rparr>"
proof -
  let ?sql = "neon_sql (rejects_title ''Mickey 17'')"
  let ?movies = "[record_2025 ''Sinners'' None, record_2025 ''Mickey 17'' None,
                  record_2025 ''Warfare'' None]"
  have a: "attempt_outcomes ?sql ?movies empty_db = [True, False, True]"
    by code_simp
  have b: "map col_title (movies_table (foldl (\<lambda>st m. snd (?sql m st)) empty_db ?movies)) =
             [Some ''Sinners'', Some ''Warfare'']"
    by code_simp
  have c: "fst (scheduled (Inr ?movies) (Inr ?sql) ''2025-07-01T00:00:00.000Z'' empty_db) =
       \<lparr> http_status = 200, http_headers = [],
         http_body = JObj
           [(''success'', JBool True), (''timestamp'', JStr ''2025-07-01T00:00:00.000Z''),
            (''totalScraped'', JNum 3), (''filtered2025Count'', JNum 3), (''storedCount'', JNum 2),
            (''message'', JStr ''Successfully scraped and stored 2 movies'')] \<rparr>"
    by code_simp
  show ?thesis
    using stored_count_counts_successful_writes[of ?sql ?movies empty_db] a b c
    by simp
qed

text \<open>The row that conflicts is updated in place.\<close>

lemma upsert_conflict_row:
  assumes "i < length rows" and "conflicts m (rows ! i)"
  shows "upsert now m rows ! i = do_update now m (rows ! i)"
    and "length (upsert now m rows) = length rows"
proof -
  have "list_ex (conflicts m) rows"
    using assms by (auto simp: list_ex_iff)
  then show "upsert now m rows ! i = do_update now m (rows ! i)"
    and "length (upsert now m rows) = length rows"
    using assms by (simp_all add: upsert_def)
qed

text \<open>
  C9. When the table has a row with the title and the year of the record, and the storage
  does not reject the write, the upsert statement leaves that row's title and year as they
  were, sets its poster URL, link, country, genre and streaming flag to the values of the
  record, null values included, and sets its \<^verbatim>\<open>updated_at\<close> to the time of the write.
  The table keeps its number of rows.
\<close>

theorem upsert_overwrites_existing_row:
  assumes "fault m d = None" and "i < length (movies_table d)"
    and "conflicts m (movies_table d ! i)"
  shows "fst (neon_sql fault m d) = Inr ()
       \<and> length (movies_table (snd (neon_sql fault m d))) = length (movies_table d)
       \<and> col_title (movies_table (snd (neon_sql fault m d)) ! i) = col_title (movies_table d ! i)
       \<and> col_year (movies_table (snd (neon_sql fault m d)) ! i) = col_year (movies_table d ! i)
       \<and> col_poster_url (movies_table (snd (neon_sql fault m d)) ! i) = posterUrl m
       \<and> col_link (movies_table (snd (neon_sql fault m d)) ! i) = link m
       \<and> col_country (movies_table (snd (neon_sql fault m d)) ! i) = country m
       \<and> col_genre (movies_table (snd (neon_sql fault m d)) ! i) = genre m
       \<and> col_has_streaming (movies_table (snd (neon_sql fault m d)) ! i) = hasStreaming m
       \<and> col_updated_at (movies_table (snd (neon_sql fault m d)) ! i) = clock d"
  using assms upsert_conflict_row[OF assms(2,3), of "clock d"]
  by (simp add: neon_sql_def do_update_def)

text \<open>
  A stored row with a genre and a link, written at time 3, and a scrape at time 7 that finds
  the same title and year without a genre: the genre and the link of the row become null.
\<close>

theorem upsert_overwrites_existing_row_witness:
  "movies_table (snd (neon_sql no_fault (record_2025 ''Sinners'' None)
       \<lparr> movies_table = [(inserted 3 (record_2025 ''Sinners'' (Some ''Horror'')))
                            \<lparr> col_link := Some ''https://flixpatrol.com/title/sinners/'' \<rparr>],
         clock = 7 \<rparr>)) =
     [\<lparr> col_title = Some ''Sinners'', col_poster_url = Some ''https://flixpatrol.com/p/poster.jpg'',
        col_link = None, col_year = Some ''2025'', col_country = Some ''United States'',
        col_genre = None, col_has_streaming = False, col_updated_at = 7 \<rparr>]"
proof -
  let ?d = "\<lparr> movies_table = [(inserted 3 (record_2025 ''Sinners'' (Some ''Horror'')))
                            \<lparr> col_link := Some ''https://flixpatrol.com/title/sinners/'' \<rparr>],
              clock = 7 \<rparr>"
  let ?m = "record_2025 ''Sinners'' None"
  have h1: "no_fault ?m ?d = None"
    by (simp add: no_fault_def)
  have h2: "0 < length (movies_table ?d)"
    by simp
  have h3: "conflicts ?m (movies_table ?d ! 0)"
    by (simp add: conflicts_def inserted_def record_2025_def)
  note row = upsert_overwrites_existing_row[of no_fault ?m ?d 0, OF h1 h2 h3]
  have "length (movies_table (snd (neon_sql no_fault ?m ?d))) = 1"
    using row by simp
  then obtain r where r: "movies_table (snd (neon_sql no_fault ?m ?d)) = [r]"
    by (cases "movies_table (snd (neon_sql no_fault ?m ?d))") auto
  show ?thesis
    using row r by (cases r) (simp add: inserted_def record_2025_def)
qed

section \<open>The summary of a run\<close>

text \<open>
  C3, as the code has it. A run in which neither the scrape nor the connection to the storage
  fails, also one that stores no record, answers with status 200 and an object with the
  fields \<open>success\<close>, \<open>timestamp\<close>, \<open>totalScraped\<close>, \<open>filtered2025Count\<close>, \<open>storedCount\<close>
  and \<open>message\<close>; the number of records that passed the filter is in the field named
  \<open>filtered2025Count\<close>.
\<close>

theorem summary_of_successful_run:
  assumes "scraped = Inr scrapedData" and "db = Inr sql"
  shows "http_status (fst (scheduled scraped db now s)) = 200
       \<and> field_names (http_body (fst (scheduled scraped db now s))) =
           [''success'', ''timestamp'', ''totalScraped'', ''filtered2025Count'', ''storedCount'',
            ''message'']
       \<and> field (http_body (fst (scheduled scraped db now s))) ''success'' = Some (JBool True)
       \<and> field (http_body (fst (scheduled scraped db now s))) ''timestamp'' = Some (JStr now)
       \<and> field (http_body (fst (scheduled scraped db now s))) ''totalScraped'' =
           Some (JNum (length scrapedData))
       \<and> field (http_body (fst (scheduled scraped db now s))) ''filtered2025Count'' =
           Some (JNum (length (filtered2025Movies scrapedData)))
       \<and> field (http_body (fst (scheduled scraped db now s))) ''storedCount'' =
           Some (JNum (fst (storeMoviesInDatabase sql (filtered2025Movies scrapedData) s)))"
  using assms
  by (simp add: scheduled_def Let_def field_def field_names_def split: prod.splits)

theorem summary_of_successful_run_witness:
  "http_status (fst (scheduled (Inr [(record_2025 ''Heat'' None)\<lparr> year := Some ''1995'' \<rparr>])
      (Inr (neon_sql no_fault)) ''2025-07-01T00:00:00.000Z'' empty_db)) = 200
   \<and> field (http_body (fst (scheduled (Inr [(record_2025 ''Heat'' None)\<lparr> year := Some ''1995'' \<rparr>])
      (Inr (neon_sql no_fault)) ''2025-07-01T00:00:00.000Z'' empty_db))) ''filtered2025Count'' =
      Some (JNum 0)
   \<and> field (http_body (fst (scheduled (Inr [(record_2025 ''Heat'' None)\<lparr> year := Some ''1995'' \<rparr>])
      (Inr (neon_sql no_fault)) ''2025-07-01T00:00:00.000Z'' empty_db))) ''storedCount'' =
      Some (JNum 0)"
proof -
  have "filtered2025Movies [(record_2025 ''Heat'' None)\<lparr> year := Some ''1995'' \<rparr>] = []"
    by (simp add: filtered2025Movies_def record_2025_def)
  then show ?thesis
    using summary_of_successful_run[OF refl refl,
        of "[(record_2025 ''Heat'' None)\<lparr> year := Some ''1995'' \<rparr>]" "neon_sql no_fault"
           "''2025-07-01T00:00:00.000Z''" empty_db]
    by (simp add: storeMoviesInDatabase_def)
qed

text \<open>
  The summary of a run that scrapes nothing: its fields are the six above, and it has no
  field named \<open>filteredCount\<close>.
\<close>

theorem summary_has_no_filteredCount:
  "field_names (http_body (fst (scheduled (Inr []) (Inr (neon_sql no_fault))
       ''2025-07-01T00:00:00.000Z'' empty_db))) =
     [''success'', ''timestamp'', ''totalScraped'', ''filtered2025Count'', ''storedCount'', ''message'']
   \<and> field (http_body (fst (scheduled (Inr []) (Inr (neon_sql no_fault))
       ''2025-07-01T00:00:00.000Z'' empty_db))) ''filteredCount'' = None"
  by (simp add: scheduled_def Let_def field_def field_names_def filtered2025Movies_def
        storeMoviesInDatabase_def)

text \<open>
  C10. In the summary of a run that answers with status 200, the stored count is at most
  the filtered count, which is at most the total of scraped records; the counts are natural
  numbers.
\<close>

theorem counts_are_ordered:
  assumes "scheduled scraped db now s = (resp, s')" and "http_status resp = 200"
  shows "\<exists>total filtered stored.
           field (http_body resp) ''totalScraped'' = Some (JNum total)
         \<and> field (http_body resp) ''filtered2025Count'' = Some (JNum filtered)
         \<and> field (http_body resp) ''storedCount'' = Some (JNum stored)
         \<and> 0 \<le> stored \<and> stored \<le> filtered \<and> filtered \<le> total"
proof (cases scraped)
  case (Inl e)
  with assms show ?thesis by (auto simp: scheduled_def Let_def)
next
  case scr: (Inr scrapedData)
  show ?thesis
  proof (cases db)
    case (Inl e)
    with scr assms show ?thesis by (auto simp: scheduled_def Let_def)
  next
    case (Inr sql)
    obtain stored s1 where
      st: "storeMoviesInDatabase sql (filtered2025Movies scrapedData) s = (stored, s1)"
      by (cases "storeMoviesInDatabase sql (filtered2025Movies scrapedData) s")
    have "stored \<le> length (filtered2025Movies scrapedData)"
      using stored_le[of sql "filtered2025Movies scrapedData" s] st by simp
    moreover note filtered_le[of scrapedData]
    ultimately show ?thesis
      using assms scr Inr st by (auto simp: scheduled_def Let_def field_def)
  qed
qed

theorem counts_are_ordered_witness:
  "\<exists>total filtered stored.
     field (http_body (fst (scheduled
        (Inr [record_2025 ''Sinners'' None, record_2025 ''Mickey 17'' None,
              (record_2025 ''Heat'' None)\<lparr> year := Some ''1995'' \<rparr>])
        (Inr (neon_sql (rejects_title ''Mickey 17''))) ''2025-07-01T00:00:00.000Z'' empty_db)))
       ''totalScraped'' = Some (JNum total)
   \<and> field (http_body (fst (scheduled
        (Inr [record_2025 ''Sinners'' None, record_2025 ''Mickey 17'' None,
              (record_2025 ''Heat'' None)\<lparr> year := Some ''1995'' \<rparr>])
        (Inr (neon_sql (rejects_title ''Mickey 17''))) ''2025-07-01T00:00:00.000Z'' empty_db)))
       ''filtered2025Count'' = Some (JNum filtered)
   \<and> field (http_body (fst (scheduled
        (Inr [record_2025 ''Sinners'' None, record_2025 ''Mickey 17'' None,
              (record_2025 ''Heat'' None)\<lparr> year := Some ''1995'' \<rparr>])
        (Inr (neon_sql (rejects_title ''Mickey 17''))) ''2025-07-01T00:00:00.000Z'' empty_db)))
       ''storedCount'' = Some (JNum stored)
   \<and> total = 3 \<and> filtered = 2 \<and> stored = 1 \<and> stored \<le> filtered \<and> filtered \<le> total"
proof -
  let ?run = "scheduled
        (Inr [record_2025 ''Sinners'' None, record_2025 ''Mickey 17'' None,
              (record_2025 ''Heat'' None)\<lparr> year := Some ''1995'' \<rparr>])
        (Inr (neon_sql (rejects_title ''Mickey 17''))) ''2025-07-01T00:00:00.000Z'' empty_db"
  have body: "fst ?run =
       \<lparr> http_status = 200, http_headers = [],
         http_body = JObj
           [(''success'', JBool True), (''timestamp'', JStr ''2025-07-01T00:00:00.000Z''),
            (''totalScraped'', JNum 3), (''filtered2025Count'', JNum 2), (''storedCount'', JNum 1),
            (''message'', JStr ''Successfully scraped and stored 1 movies'')] \<rparr>"
    by code_simp
  have h1: "?run = (fst ?run, snd ?run)"
    by simp
  have h2: "http_status (fst ?run) = 200"
    by (simp add: body)
  show ?thesis
    using counts_are_ordered[OF h1 h2] by (auto simp: body field_def)
qed

text \<open>The same order holds in the summary of \<^verbatim>\<open>/scrape-now\<close>.\<close>

lemma scrape_now_counts_are_ordered:
  assumes "scrape_now scraped db now s = (resp, s')" and "http_status resp = 200"
  shows "\<exists>total filtered stored.
           field (http_body resp) ''totalScraped'' = Some (JNum total)
         \<and> field (http_body resp) ''filtered2025Count'' = Some (JNum filtered)
         \<and> field (http_body resp) ''storedCount'' = Some (JNum stored)
         \<and> stored \<le> filtered \<and> filtered \<le> total"
proof (cases scraped)
  case (Inl e)
  with assms show ?thesis by (auto simp: scrape_now_def Let_def)
next
  case scr: (Inr scrapedData)
  show ?thesis
  proof (cases db)
    case (Inl e)
    with scr assms show ?thesis by (auto simp: scrape_now_def Let_def)
  next
    case (Inr sql)
    obtain stored s1 where
      st: "storeMoviesInDatabase sql (filtered2025Movies scrapedData) s = (stored, s1)"
      by (cases "storeMoviesInDatabase sql (filtered2025Movies scrapedData) s")
    have "stored \<le> length (filtered2025Movies scrapedData)"
      using stored_le[of sql "filtered2025Movies scrapedData" s] st by simp
    moreover note filtered_le[of scrapedData]
    ultimately show ?thesis
      using assms scr Inr st by (auto simp: scrape_now_def Let_def field_def)
  qed
qed

text \<open>A row with another key is left as it was.\<close>

lemma upsert_keeps_other_rows:
  assumes "j < length rows" and "\<not> conflicts m (rows ! j)"
  shows "upsert now m rows ! j = rows ! j"
  using assms by (simp add: upsert_def nth_append)

section \<open>The poster URL and the link\<close>

text \<open>
  C5, as the code has it. The poster URL and the link of an emitted record are the origin
  \<^verbatim>\<open>https://flixpatrol.com\<close> followed by the extracted \<^verbatim>\<open>src\<close> and \<^verbatim>\<open>href\<close>,
  whatever the extracted value starts with, and null when nothing (or, with cheerio, the
  empty string) is extracted.
\<close>

theorem poster_and_link_are_origin_and_path:
  "(scrape_row row = Inr (Some m) \<longrightarrow>
      posterUrl m = (case attr (find_in row (Tag ''img'')) ''src'' of
                       None \<Rightarrow> None
                     | Some src \<Rightarrow> if src = [] then None else Some (''https://flixpatrol.com'' @ src))
      \<and> link m = (case attr (find_in row (Tag ''a'')) ''href'' of
                     None \<Rightarrow> None
                   | Some href \<Rightarrow> if href = [] then None else Some (''https://flixpatrol.com'' @ href)))
   \<and> (parse_row fragment = Inr (Some m') \<longrightarrow>
      posterUrl m' = (case posterMatch fragment of
                        None \<Rightarrow> None | Some src \<Rightarrow> Some (''https://flixpatrol.com'' @ src))
      \<and> link m' = (case linkMatch fragment of
                      None \<Rightarrow> None | Some href \<Rightarrow> Some (''https://flixpatrol.com'' @ href)))"
  by (auto simp: scrape_row_def parse_row_def Let_def or_empty_def origin_def
        split: if_splits option.splits)

theorem poster_and_link_are_origin_and_path_witness:
  "map posterUrl (scrape_rows [sinners_row]) = [Some ''https://flixpatrol.com/p/sinners.jpg'']
   \<and> map link (scrape_rows [sinners_row]) = [Some ''https://flixpatrol.com/title/sinners/'']
   \<and> map posterUrl (parseMovieData (row_marker @ sinners_fragment)) =
       [Some ''https://flixpatrol.com/p/sinners.jpg'']
   \<and> map link (parseMovieData (row_marker @ sinners_fragment)) =
       [Some ''https://flixpatrol.com/title/sinners/'']"
proof -
  have "\<exists>m. scrape_row sinners_row = Inr (Some m)"
    unfolding scrape_row_emits by code_simp
  then obtain m where m: "scrape_row sinners_row = Inr (Some m)" ..
  have "\<exists>m. parse_row sinners_fragment = Inr (Some m)"
    unfolding parse_row_emits by code_simp
  then obtain m' where m': "parse_row sinners_fragment = Inr (Some m')" ..
  have src: "attr (find_in sinners_row (Tag ''img'')) ''src'' = Some ''/p/sinners.jpg''"
    by code_simp
  have href: "attr (find_in sinners_row (Tag ''a'')) ''href'' = Some ''/title/sinners/''"
    by code_simp
  have pm: "posterMatch sinners_fragment = Some ''/p/sinners.jpg''"
    by code_simp
  have lm: "linkMatch sinners_fragment = Some ''/title/sinners/''"
    by code_simp
  have rows: "select [sinners_row] (TagClass ''tr'' ''table-group'') = [sinners_row]"
    by code_simp
  have frags: "movieRows (row_marker @ sinners_fragment) = [sinners_fragment]"
    by code_simp
  show ?thesis
    using poster_and_link_are_origin_and_path[of sinners_row m sinners_fragment m'] m m'
    by (simp add: src href pm lm rows frags scrape_rows_def parseMovieData_def)
qed

text \<open>
  A \<^verbatim>\<open>src\<close> and a \<^verbatim>\<open>href\<close> that are absolute URLs are not returned unchanged: the
  origin is put in front of them too, by both extractors.
\<close>

theorem absolute_url_is_prefixed_too:
  "map posterUrl (scrape_rows [cdn_row]) =
     [Some ''https://flixpatrol.comhttps://cdn.flixpatrol.com/p/sinners.jpg'']
   \<and> map link (scrape_rows [cdn_row]) =
     [Some ''https://flixpatrol.comhttps://flixpatrol.com/title/sinners/'']
   \<and> map posterUrl (parseMovieData (row_marker @ cdn_fragment)) =
     [Some ''https://flixpatrol.comhttps://cdn.flixpatrol.com/p/sinners.jpg'']
   \<and> map link (parseMovieData (row_marker @ cdn_fragment)) =
     [Some ''https://flixpatrol.comhttps://flixpatrol.com/title/sinners/'']"
  by code_simp

section \<open>The streaming signal\<close>

text \<open>
  The test of the cheerio extractor ignores case: a row text that contains one of the
  alternatives in any casing has the streaming signal.
\<close>

lemma regex_test_i_ignores_case:
  assumes "a \<in> set alts" and "map to_upper w = map to_upper a" and "str_includes s w"
  shows "regex_test_i alts s"
proof -
  have "str_includes (map to_upper s) (map to_upper a)"
    using str_includes_map[OF assms(3), of to_upper] assms(2) by simp
  with assms(1) show ?thesis
    by (auto simp: regex_test_i_def list_ex_iff)
qed

lemma scrape_row_streaming_ignores_case:
  assumes "scrape_row row = Inr (Some m)" and "a \<in> set streaming_alternatives"
    and "map to_upper w = map to_upper a" and "str_includes (text_content row) w"
  shows "hasStreaming m"
  using assms(1) regex_test_i_ignores_case[OF assms(2,3,4)]
  by (auto simp: scrape_row_def Let_def split: if_splits)

lemma shouting_row_has_streaming: "map hasStreaming (scrape_rows [shouting_row]) = [True]"
  by code_simp

text \<open>
  C4. \<^verbatim>\<open>parseMovieData\<close> tests the fragment with \<^verbatim>\<open>includes\<close>, which compares code
  units as they are: on a fragment with \<open>STREAMING\<close> and \<open>netflix\<close> its record has no
  streaming signal.
\<close>

theorem parseMovieData_streaming_test_is_case_sensitive:
  "map hasStreaming (parseMovieData (row_marker @ shouting_fragment)) = [False]"
  by code_simp

section \<open>The year\<close>

text \<open>The year of a record of \<^verbatim>\<open>parseMovieData\<close> is null or four digits.\<close>

lemma digits_Some: "digits n s = Some (d, r) \<Longrightarrow> length d = n \<and> list_all is_digit d"
  by (auto simp: digits_def split: if_splits)

lemma yearMatch_at_four_digits:
  assumes "yearMatch_at s = Some y"
  shows "length y = 4 \<and> list_all is_digit y"
proof -
  obtain r r' where "digits 4 r = Some (y, r')"
    using assms by (auto simp: yearMatch_at_def split: bind_splits)
  then show ?thesis by (rule digits_Some)
qed

lemma yearMatch_four_digits: "yearMatch row = Some y \<Longrightarrow> length y = 4 \<and> list_all is_digit y"
  unfolding yearMatch_def by (blast dest: first_match_Some yearMatch_at_four_digits)

lemma parse_row_year_four_digits:
  "parse_row fragment = Inr (Some m) \<Longrightarrow> year m = Some y \<Longrightarrow> length y = 4 \<and> list_all is_digit y"
  by (auto simp: parse_row_def Let_def split: if_splits dest: yearMatch_four_digits)

lemma parseMovieData_year_four_digits:
  assumes "m \<in> set (parseMovieData html)" and "year m = Some y"
  shows "length y = 4 \<and> list_all is_digit y"
proof -
  obtain row where "parse_row row = Inr (Some m)"
    using assms(1) unfolding parseMovieData_def by (blast dest: forEach_try_member)
  then show ?thesis
    using assms(2) by (rule parse_row_year_four_digits)
qed

text \<open>
  C6. The cheerio extractor takes the third piece of the premiere text between slashes,
  whatever it is: on a premiere date with a two-digit year the year of its record has two
  digits.
\<close>

theorem scrape_rows_year_is_not_checked:
  "map year (scrape_rows [short_year_row]) = [Some ''25'']"
  by code_simp

end
